theory Spec2Isabelle
  imports Main
begin

section \<open>Values\<close>

text \<open>
  Every rejection raised by \<^verbatim>\<open>asyncOperations.ts\<close> itself is an \<^verbatim>\<open>Error\<close> object, and the
  module reads nothing but its \<^verbatim>\<open>message\<close>; the source casts every caught value with
  \<^verbatim>\<open>error as Error\<close>. Numbers that serve as identifiers and counts are integers, and durations
  are natural numbers of milliseconds on a virtual clock.
\<close>

datatype js_error = Error (message: string)

record user =
  id' :: int
  name :: string
  email :: string

type_synonym instant = nat

text \<open>
  A promise is described by its fate on the virtual clock: it stays pending for ever, or it
  is settled at one instant, with \<open>Inl\<close> a rejection reason and \<open>Inr\<close> a fulfilment value.
  Instants are counted from the call that created the promise.
\<close>

datatype ('e, 'a) promise = Pending | Settled instant "'e + 'a"

type_synonym 'a js_promise = "(js_error, 'a) promise"

text \<open>Code that awaits for \<open>t\<close> milliseconds before it goes on with \<open>p\<close>.\<close>

definition delay :: "instant \<Rightarrow> ('e, 'a) promise \<Rightarrow> ('e, 'a) promise" where
  "delay t p = (case p of Pending \<Rightarrow> Pending | Settled d r \<Rightarrow> Settled (t + d) r)"

section \<open>User lookup\<close>

text \<open>\<^verbatim>\<open>fetchUserData\<close>: one timer of 100 ms, whose callback resolves or rejects.\<close>

definition fetchUserData :: "int \<Rightarrow> user js_promise" where
  "fetchUserData userId = Settled 100
     (if userId = 1 then Inr \<lparr>id' = 1, name = ''John Doe'', email = ''john@example.com''\<rparr>
      else if userId = 2 then Inr \<lparr>id' = 2, name = ''Jane Smith'', email = ''jane@example.com''\<rparr>
      else Inl (Error ''User not found''))"

section \<open>String literals of the module\<close>

text \<open>
  The Korean literals of the source are kept as the UTF-8 bytes of the source file, since a
  \<^typ>\<open>string\<close> is a list of 8-bit characters. Concatenation of well-formed strings is the
  same in UTF-8 as in JavaScript's UTF-16, so template literals are concatenations.
\<close>

definition processed_prefix :: string where
  \<comment> \<open>U+CC98 U+B9AC U+B41C, space, U+C0AC U+C6A9 U+C790, colon, space\<close>
  "processed_prefix =
     [CHR 0xEC, CHR 0xB2, CHR 0x98, CHR 0xEB, CHR 0xA6, CHR 0xAC, CHR 0xEB, CHR 0x90, CHR 0x9C,
      CHR 0x20, CHR 0xEC, CHR 0x82, CHR 0xAC, CHR 0xEC, CHR 0x9A, CHR 0xA9, CHR 0xEC, CHR 0x9E,
      CHR 0x90, CHR 0x3A, CHR 0x20]"

definition failed_prefix :: string where
  \<comment> \<open>U+C0AC U+C6A9 U+C790, space, U+B370 U+C774 U+D130, space, U+CC98 U+B9AC, space,
      U+C2E4 U+D328, colon, space\<close>
  "failed_prefix =
     [CHR 0xEC, CHR 0x82, CHR 0xAC, CHR 0xEC, CHR 0x9A, CHR 0xA9, CHR 0xEC, CHR 0x9E, CHR 0x90,
      CHR 0x20, CHR 0xEB, CHR 0x8D, CHR 0xB0, CHR 0xEC, CHR 0x9D, CHR 0xB4, CHR 0xED, CHR 0x84,
      CHR 0xB0, CHR 0x20, CHR 0xEC, CHR 0xB2, CHR 0x98, CHR 0xEB, CHR 0xA6, CHR 0xAC, CHR 0x20,
      CHR 0xEC, CHR 0x8B, CHR 0xA4, CHR 0xED, CHR 0x8C, CHR 0xA8, CHR 0x3A, CHR 0x20]"

definition retries_prefix :: string where
  \<comment> \<open>U+CD5C U+B300, space, U+C7AC U+C2DC U+B3C4, space, U+D69F U+C218, space,
      U+CD08 U+ACFC, space, opening parenthesis\<close>
  "retries_prefix =
     [CHR 0xEC, CHR 0xB5, CHR 0x9C, CHR 0xEB, CHR 0x8C, CHR 0x80, CHR 0x20, CHR 0xEC, CHR 0x9E,
      CHR 0xAC, CHR 0xEC, CHR 0x8B, CHR 0x9C, CHR 0xEB, CHR 0x8F, CHR 0x84, CHR 0x20, CHR 0xED,
      CHR 0x9A, CHR 0x9F, CHR 0xEC, CHR 0x88, CHR 0x98, CHR 0x20, CHR 0xEC, CHR 0xB4, CHR 0x88,
      CHR 0xEA, CHR 0xB3, CHR 0xBC, CHR 0x20, CHR 0x28]"

definition retries_infix :: string where
  \<comment> \<open>U+D68C, closing parenthesis, colon, space\<close>
  "retries_infix = [CHR 0xED, CHR 0x9A, CHR 0x8C, CHR 0x29, CHR 0x3A, CHR 0x20]"

definition task_failed :: string where
  \<comment> \<open>U+C791 U+C5C5, space, U+C2E4 U+D328\<close>
  "task_failed =
     [CHR 0xEC, CHR 0x9E, CHR 0x91, CHR 0xEC, CHR 0x97, CHR 0x85, CHR 0x20, CHR 0xEC, CHR 0x8B,
      CHR 0xA4, CHR 0xED, CHR 0x8C, CHR 0xA8]"

definition task_done_prefix :: string where
  \<comment> \<open>U+C791 U+C5C5, space, U+C644 U+B8CC, colon, space\<close>
  "task_done_prefix =
     [CHR 0xEC, CHR 0x9E, CHR 0x91, CHR 0xEC, CHR 0x97, CHR 0x85, CHR 0x20, CHR 0xEC, CHR 0x99,
      CHR 0x84, CHR 0xEB, CHR 0xA3, CHR 0x8C, CHR 0x3A, CHR 0x20]"

definition cleanup_prefix :: string where
  \<comment> \<open>U+B9AC U+C18C U+C2A4, space, U+C815 U+B9AC, colon, space\<close>
  "cleanup_prefix =
     [CHR 0xEB, CHR 0xA6, CHR 0xAC, CHR 0xEC, CHR 0x86, CHR 0x8C, CHR 0xEC, CHR 0x8A, CHR 0xA4,
      CHR 0x20, CHR 0xEC, CHR 0xA0, CHR 0x95, CHR 0xEB, CHR 0xA6, CHR 0xAC, CHR 0x3A, CHR 0x20]"

text \<open>A number inside a template literal: the decimal digits, with a sign when negative.\<close>

definition digit_char :: "nat \<Rightarrow> char" where
  "digit_char n = ''0123456789'' ! (n mod 10)"

function string_of_nat :: "nat \<Rightarrow> string" where
  "string_of_nat n =
     (if n < 10 then [digit_char n] else string_of_nat (n div 10) @ [digit_char (n mod 10)])"
  by pat_completeness auto
termination
  by (relation "measure (\<lambda>n. n)") auto

declare string_of_nat.simps [simp del]

definition string_of_int :: "int \<Rightarrow> string" where
  "string_of_int i = (if i < 0 then ''-'' @ string_of_nat (nat (- i)) else string_of_nat (nat i))"

section \<open>Lookup and format, one identifier at a time and all at once\<close>

text \<open>
  \<^verbatim>\<open>processUserData\<close>: await the lookup; format the record, or wrap the message of the
  caught error in a new error. The function settles in the turn in which the lookup does.
\<close>

definition processUserData :: "int \<Rightarrow> string js_promise" where
  "processUserData userId =
     (case fetchUserData userId of
        Pending \<Rightarrow> Pending
      | Settled d (Inr user) \<Rightarrow>
          Settled d (Inr (processed_prefix @ name user @ '' ('' @ email user @ '')''))
      | Settled d (Inl error) \<Rightarrow> Settled d (Inl (Error (failed_prefix @ message error))))"

text \<open>
  \<^verbatim>\<open>processMultipleUsers\<close>: the \<^verbatim>\<open>for\<close> loop over the identifiers with the array
  \<^verbatim>\<open>results\<close> it pushes to; each iteration awaits before the next one starts.
\<close>

fun processMultipleUsers_loop :: "int list \<Rightarrow> string list \<Rightarrow> string list js_promise" where
  "processMultipleUsers_loop [] results = Settled 0 (Inr results)"
| "processMultipleUsers_loop (userId # rest) results =
     (case processUserData userId of
        Pending \<Rightarrow> Pending
      | Settled d (Inr processed) \<Rightarrow>
          delay d (processMultipleUsers_loop rest (results @ [processed]))
      | Settled d (Inl error) \<Rightarrow>
          delay d (processMultipleUsers_loop rest (results @ [''Error: '' @ message error])))"

definition processMultipleUsers :: "int list \<Rightarrow> string list js_promise" where
  "processMultipleUsers userIds = processMultipleUsers_loop userIds []"

text \<open>
  \<^verbatim>\<open>Promise.all\<close>: fulfilled with the values in the order of the array once every promise
  is fulfilled, rejected as soon as one promise is rejected (the earliest one; the first in
  the array among several of one instant).
\<close>

definition all_pair :: "('e, 'a) promise \<Rightarrow> ('e, 'a list) promise \<Rightarrow> ('e, 'a list) promise" where
  "all_pair p q =
     (case (p, q) of
        (Settled d (Inl e), Settled d' (Inl e')) \<Rightarrow>
          if d \<le> d' then Settled d (Inl e) else Settled d' (Inl e')
      | (Settled d (Inl e), _) \<Rightarrow> Settled d (Inl e)
      | (_, Settled d' (Inl e')) \<Rightarrow> Settled d' (Inl e')
      | (Pending, _) \<Rightarrow> Pending
      | (_, Pending) \<Rightarrow> Pending
      | (Settled d (Inr v), Settled d' (Inr vs)) \<Rightarrow> Settled (max d d') (Inr (v # vs)))"

fun promise_all :: "('e, 'a) promise list \<Rightarrow> ('e, 'a list) promise" where
  "promise_all [] = Settled 0 (Inr [])"
| "promise_all (p # ps) = all_pair p (promise_all ps)"

text \<open>
  \<^verbatim>\<open>processUsersParallel\<close>: the async arrow function mapped over the identifiers, every
  call of it started in the same turn, and \<^verbatim>\<open>Promise.all\<close> over the promises.
\<close>

definition processUsersParallel_item :: "int \<Rightarrow> string js_promise" where
  "processUsersParallel_item userId =
     (case processUserData userId of
        Pending \<Rightarrow> Pending
      | Settled d (Inr processed) \<Rightarrow> Settled d (Inr processed)
      | Settled d (Inl error) \<Rightarrow> Settled d (Inr (''Error: '' @ message error)))"

definition processUsersParallel :: "int list \<Rightarrow> string list js_promise" where
  "processUsersParallel userIds = promise_all (map processUsersParallel_item userIds)"

section \<open>Operations handed to the wrappers\<close>

text \<open>
  A wrapper receives a zero-argument function that returns a promise. Such a function may
  answer differently from call to call (the tests use mocks that fail once and then
  succeed), so it is a function of a hidden state \<open>'s\<close>, returned updated.
\<close>

type_synonym ('s, 'a) operation = "'s \<Rightarrow> 'a js_promise \<times> 's"

text \<open>
  A promise made with \<^verbatim>\<open>new Promise\<close> is settled by the first call of \<^verbatim>\<open>resolve\<close> or
  \<^verbatim>\<open>reject\<close>; a call on a settled promise changes nothing. The instant is the one at which
  the call is made.
\<close>

definition resolve :: "instant \<Rightarrow> 'a \<Rightarrow> ('e, 'a) promise \<Rightarrow> ('e, 'a) promise" where
  "resolve t v p = (case p of Pending \<Rightarrow> Settled t (Inr v) | Settled t' r \<Rightarrow> Settled t' r)"

definition reject :: "instant \<Rightarrow> 'e \<Rightarrow> ('e, 'a) promise \<Rightarrow> ('e, 'a) promise" where
  "reject t e p = (case p of Pending \<Rightarrow> Settled t (Inl e) | Settled t' r \<Rightarrow> Settled t' r)"

section \<open>Timeout wrapper\<close>

text \<open>
  \<^verbatim>\<open>fetchWithTimeout\<close>: the executor arms a timer and calls the operation. Two things can
  then happen, each at its instant: the timer fires, unless it has been cleared, and rejects;
  the operation settles, and its \<^verbatim>\<open>then\<close> or \<^verbatim>\<open>catch\<close> handler clears the timer and settles
  the returned promise. The handlers run in the order of their instants; the timer was armed
  before the operation was called, so it is first at equal instants.
\<close>

datatype timer_state = Armed | Fired | Cleared

record 'a timeout_run =
  returned :: "'a js_promise"
  timer :: timer_state

datatype 'a timeout_event = Timer_fires | Operation_settles "js_error + 'a"

definition clearTimeout :: "'a timeout_run \<Rightarrow> 'a timeout_run" where
  "clearTimeout run = (if timer run = Armed then run\<lparr>timer := Cleared\<rparr> else run)"

fun timeout_handler :: "instant \<times> 'a timeout_event \<Rightarrow> 'a timeout_run \<Rightarrow> 'a timeout_run" where
  "timeout_handler (t, Timer_fires) run =
     (if timer run = Armed
      then run\<lparr>returned := reject t (Error ''Operation timed out'') (returned run),
               timer := Fired\<rparr>
      else run)"
| "timeout_handler (t, Operation_settles (Inr result)) run =
     (let run' = clearTimeout run in run'\<lparr>returned := resolve t result (returned run')\<rparr>)"
| "timeout_handler (t, Operation_settles (Inl error)) run =
     (let run' = clearTimeout run in run'\<lparr>returned := reject t error (returned run')\<rparr>)"

definition timeout_events :: "'a js_promise \<Rightarrow> instant \<Rightarrow> (instant \<times> 'a timeout_event) list" where
  "timeout_events p timeout =
     (case p of
        Pending \<Rightarrow> [(timeout, Timer_fires)]
      | Settled d r \<Rightarrow>
          if d < timeout then [(d, Operation_settles r), (timeout, Timer_fires)]
          else [(timeout, Timer_fires), (d, Operation_settles r)])"

definition fetchWithTimeout :: "('s, 'a) operation \<Rightarrow> instant \<Rightarrow> 's \<Rightarrow> 'a timeout_run \<times> 's" where
  "fetchWithTimeout operation timeout s =
     (let (p, s') = operation s
      in (fold timeout_handler (timeout_events p timeout) \<lparr>returned = Pending, timer = Armed\<rparr>,
          s'))"

section \<open>Retry wrapper\<close>

text \<open>
  \<^verbatim>\<open>fetchWithRetry\<close> rejects with an \<^verbatim>\<open>Error\<close> it has made, or, on its last line, with
  whatever \<^verbatim>\<open>lastError\<close> holds: a caught error, or \<^verbatim>\<open>undefined\<close> when nothing was assigned.
  \<^verbatim>\<open>maxRetries\<close> is a number of attempts, an integer, of either sign.
\<close>

datatype thrown = Thrown js_error | Thrown_undefined

record ('s, 'a) retry_run =
  returned_retry :: "(thrown, 'a) promise"
  invocations :: nat
  state_after :: 's

text \<open>
  The \<^verbatim>\<open>for\<close> loop, with its variables \<^verbatim>\<open>attempt\<close> and \<^verbatim>\<open>lastError\<close>; \<open>now\<close> is the
  instant reached, \<open>calls\<close> counts the invocations of the operation made so far. The backoff
  is the nominal delay given to \<^verbatim>\<open>setTimeout\<close>.
\<close>

function fetchWithRetry_loop ::
  "('s, 'a) operation \<Rightarrow> int \<Rightarrow> int \<Rightarrow> js_error option \<Rightarrow> instant \<Rightarrow> nat \<Rightarrow> 's
     \<Rightarrow> ('s, 'a) retry_run" where
  "fetchWithRetry_loop operation maxRetries attempt lastError now calls s =
     (if attempt \<le> maxRetries then
        (case operation s of
           (Pending, s') \<Rightarrow>
             \<lparr>returned_retry = Pending, invocations = Suc calls, state_after = s'\<rparr>
         | (Settled d (Inr result), s') \<Rightarrow>
             \<lparr>returned_retry = Settled (now + d) (Inr result), invocations = Suc calls,
              state_after = s'\<rparr>
         | (Settled d (Inl error), s') \<Rightarrow>
             if attempt = maxRetries then
               \<lparr>returned_retry = Settled (now + d) (Inl (Thrown (Error
                   (retries_prefix @ string_of_int maxRetries @ retries_infix @ message error)))),
                invocations = Suc calls, state_after = s'\<rparr>
             else fetchWithRetry_loop operation maxRetries (attempt + 1) (Some error)
                    (now + d + 100 * 2 ^ nat (attempt - 1)) (Suc calls) s')
      else
        \<lparr>returned_retry = Settled now
           (Inl (case lastError of None \<Rightarrow> Thrown_undefined | Some error \<Rightarrow> Thrown error)),
         invocations = calls, state_after = s\<rparr>)"
  by pat_completeness auto
termination
  by (relation "measure (\<lambda>(operation, maxRetries, attempt, lastError, now, calls, s).
        nat (maxRetries + 1 - attempt))") auto

declare fetchWithRetry_loop.simps [simp del]

definition fetchWithRetry :: "('s, 'a) operation \<Rightarrow> int \<Rightarrow> 's \<Rightarrow> ('s, 'a) retry_run" where
  "fetchWithRetry operation maxRetries s = fetchWithRetry_loop operation maxRetries 1 None 0 0 s"

section \<open>Callback bridge\<close>

text \<open>
  \<^verbatim>\<open>fetchUserCallback\<close>: one timer of 50 ms whose callback calls the continuation once. The
  model gives the instant of that call and what the continuation returns there; \<^verbatim>\<open>null\<close>
  and a missing second argument are \<open>None\<close>.
\<close>

definition fetchUserCallback :: "int \<Rightarrow> (js_error option \<Rightarrow> user option \<Rightarrow> 'r) \<Rightarrow> instant \<times> 'r" where
  "fetchUserCallback userId callback =
     (50,
      if userId = 1
      then callback None (Some \<lparr>id' = 1, name = ''John Doe'', email = ''john@example.com''\<rparr>)
      else if userId = 2
      then callback None (Some \<lparr>id' = 2, name = ''Jane Smith'', email = ''jane@example.com''\<rparr>)
      else callback (Some (Error ''User not found'')) None)"

text \<open>
  \<^verbatim>\<open>promisifyCallback\<close>: the continuation rejects with the error when there is one and
  resolves with the second argument as it is otherwise (the non-null assertion of the
  source checks nothing at run time, so the value may be missing).
\<close>

definition promisifyCallback :: "int \<Rightarrow> (user option) js_promise" where
  "promisifyCallback userId =
     (let (t, settle) =
            fetchUserCallback userId
              (\<lambda>error user. case error of
                 Some e \<Rightarrow> (\<lambda>t. reject t e)
               | None \<Rightarrow> (\<lambda>t. resolve t user))
      in settle t Pending)"

section \<open>Console and clock\<close>

text \<open>
  What a caller of a sequential async function can observe besides its result: the instant
  reached, and the lines written with \<^verbatim>\<open>console.log\<close> and \<^verbatim>\<open>console.error\<close>, each with the
  instant of the call.
\<close>

record world =
  clock :: instant
  console_log :: "(instant \<times> string) list"
  console_error :: "(instant \<times> string \<times> js_error) list"

definition sleep :: "instant \<Rightarrow> world \<Rightarrow> world" where
  "sleep d w = w\<lparr>clock := clock w + d\<rparr>"

definition print_log :: "string \<Rightarrow> world \<Rightarrow> world" where
  "print_log line w = w\<lparr>console_log := console_log w @ [(clock w, line)]\<rparr>"

definition print_error :: "string \<Rightarrow> js_error \<Rightarrow> world \<Rightarrow> world" where
  "print_error line e w = w\<lparr>console_error := console_error w @ [(clock w, line, e)]\<rparr>"

section \<open>Streaming producer\<close>

text \<open>
  \<^verbatim>\<open>generateUserStream\<close>: the state of the generator is the identifiers it has not looked
  at yet. One call of \<^verbatim>\<open>next\<close> runs the loop up to the next \<^verbatim>\<open>yield\<close> or to the end. The
  promise that \<^verbatim>\<open>next\<close> returns could be rejected, so the answer is a sum; \<open>None\<close> stands
  for a call that never returns.
\<close>

datatype 'a iterator_result = Yield 'a | Done

fun generateUserStream_next ::
  "int list \<Rightarrow> world \<Rightarrow> ((js_error + user iterator_result) \<times> int list \<times> world) option" where
  "generateUserStream_next [] w = Some (Inr Done, [], w)"
| "generateUserStream_next (userId # rest) w =
     (case fetchUserData userId of
        Pending \<Rightarrow> None
      | Settled d (Inr user) \<Rightarrow> Some (Inr (Yield user), rest, sleep d w)
      | Settled d (Inl error) \<Rightarrow>
          generateUserStream_next rest
            (print_error (''Failed to fetch user '' @ string_of_int userId @ '':'') error
               (sleep d w)))"

lemma generateUserStream_next_shorter:
  "generateUserStream_next userIds w = Some (Inr (Yield user), rest, w')
   \<Longrightarrow> length rest < length userIds"
  by (induction userIds w rule: generateUserStream_next.induct)
     (auto split: promise.splits sum.splits)

text \<open>
  The consumer of the tests: \<^verbatim>\<open>for await (const user of generateUserStream(userIds))
  users.push(user)\<close>. A rejected \<^verbatim>\<open>next\<close> would be thrown out of the loop.
\<close>

function for_await_push ::
  "int list \<Rightarrow> world \<Rightarrow> user list \<Rightarrow> ((js_error + user list) \<times> world) option" where
  "for_await_push userIds w users =
     (case generateUserStream_next userIds w of
        None \<Rightarrow> None
      | Some (Inl e, rest, w') \<Rightarrow> Some (Inl e, w')
      | Some (Inr Done, rest, w') \<Rightarrow> Some (Inr users, w')
      | Some (Inr (Yield user), rest, w') \<Rightarrow> for_await_push rest w' (users @ [user]))"
  by pat_completeness auto
termination
  by (relation "measure (\<lambda>(userIds, w, users). length userIds)")
     (auto dest: generateUserStream_next_shorter)

declare for_await_push.simps [simp del]

section \<open>Race composer\<close>

text \<open>
  \<^verbatim>\<open>Promise.race\<close> subscribes to every promise of the array, in order, with the \<^verbatim>\<open>resolve\<close>
  and \<^verbatim>\<open>reject\<close> of the promise it returns. The reactions run in the order in which the
  promises settle; the sort is stable, so the array order decides at equal instants.
\<close>

definition settlements :: "('e, 'a) promise \<Rightarrow> (instant \<times> ('e + 'a)) list" where
  "settlements p = (case p of Pending \<Rightarrow> [] | Settled d r \<Rightarrow> [(d, r)])"

definition settle :: "instant \<times> ('e + 'a) \<Rightarrow> ('e, 'a) promise \<Rightarrow> ('e, 'a) promise" where
  "settle ev p = (case ev of (t, Inr v) \<Rightarrow> resolve t v p | (t, Inl e) \<Rightarrow> reject t e p)"

definition promise_race :: "('e, 'a) promise list \<Rightarrow> ('e, 'a) promise" where
  "promise_race ps = fold settle (sort_key fst (concat (map settlements ps))) Pending"

text \<open>\<^verbatim>\<open>raceConditionTest\<close>: both operations are called, the first one first.\<close>

definition raceConditionTest ::
  "('s, string) operation \<Rightarrow> ('s, string) operation \<Rightarrow> 's \<Rightarrow> string js_promise \<times> 's" where
  "raceConditionTest operation1 operation2 s =
     (let (p1, s1) = operation1 s; (p2, s2) = operation2 s1
      in (promise_race [p1, p2], s2))"

section \<open>Resource-scoped operation\<close>

text \<open>
  \<^verbatim>\<open>complexAsyncOperation\<close>: the \<^verbatim>\<open>try\<close> block ends with a completion, a thrown error or
  a returned string; the \<^verbatim>\<open>finally\<close> block runs after it and leaves the completion as it
  is. \<^verbatim>\<open>resource\<close> is a string or \<^verbatim>\<open>null\<close>.
\<close>

definition truthy :: "string option \<Rightarrow> bool" where
  "truthy resource = (case resource of None \<Rightarrow> False | Some r \<Rightarrow> r \<noteq> [])"

definition template :: "string option \<Rightarrow> string" where
  "template resource = (case resource of None \<Rightarrow> ''null'' | Some r \<Rightarrow> r)"

definition complexAsyncOperation :: "bool \<Rightarrow> world \<Rightarrow> (js_error + string) \<times> world" where
  "complexAsyncOperation shouldFail w =
     (let w1 = sleep 50 w;
          resource = Some ''allocated resource'';
          (completion, w2) =
            (if shouldFail then (Inl (Error task_failed), w1)
             else (Inr (task_done_prefix @ template resource), sleep 100 w1));
          w3 = (if truthy resource
                then print_log (cleanup_prefix @ template resource) (sleep 25 w2)
                else w2)
      in (completion, w3))"

section \<open>Auxiliary notions for the statements\<close>

text \<open>
  What an operation does when it is called again and again from the state \<open>s\<close>:
  \<open>state_before operation s k\<close> is the hidden state after \<open>k\<close> calls, and
  \<open>nth_call operation s k\<close> is the promise returned by the call made in that state
  (calls are counted from 0). When the calls before call \<open>k\<close> are all rejected,
  \<open>call_instant operation s k\<close> is the instant at which the retry wrapper makes call
  \<open>k\<close>: each earlier call \<open>j\<close>, which is attempt \<open>j + 1\<close>, takes its time to settle and is
  followed by a backoff of \<open>100 * 2 ^ j\<close> milliseconds.
\<close>

fun state_before :: "('s, 'a) operation \<Rightarrow> 's \<Rightarrow> nat \<Rightarrow> 's" where
  "state_before operation s 0 = s"
| "state_before operation s (Suc k) = snd (operation (state_before operation s k))"

definition nth_call :: "('s, 'a) operation \<Rightarrow> 's \<Rightarrow> nat \<Rightarrow> 'a js_promise" where
  "nth_call operation s k = fst (operation (state_before operation s k))"

definition is_rejected :: "('e, 'a) promise \<Rightarrow> bool" where
  "is_rejected p = (case p of Settled d (Inl e) \<Rightarrow> True | _ \<Rightarrow> False)"

definition settles_after :: "('e, 'a) promise \<Rightarrow> instant" where
  "settles_after p = (case p of Pending \<Rightarrow> 0 | Settled d r \<Rightarrow> d)"

fun call_instant :: "('s, 'a) operation \<Rightarrow> 's \<Rightarrow> nat \<Rightarrow> instant" where
  "call_instant operation s 0 = 0"
| "call_instant operation s (Suc k) =
     call_instant operation s k + settles_after (nth_call operation s k) + 100 * 2 ^ k"

text \<open>
  The string that either aggregator stores for one identifier, written out: the formatted
  record, or the message of the error of \<^verbatim>\<open>processUserData\<close> behind \<^verbatim>\<open>Error: \<close>.
\<close>

definition item_text :: "int \<Rightarrow> string" where
  "item_text userId =
     (if userId = 1 then processed_prefix @ ''John Doe (john@example.com)''
      else if userId = 2 then processed_prefix @ ''Jane Smith (jane@example.com)''
      else ''Error: '' @ failed_prefix @ ''User not found'')"

section \<open>Properties of the user lookup\<close>

text \<open>
  C4. Identifier 1 resolves to the record of John Doe and identifier 2 to the record of
  Jane Smith; every other identifier is rejected with the error "User not found".
\<close>

theorem fetchUserData_table:
  "fetchUserData 1 =
     Settled 100 (Inr \<lparr>id' = 1, name = ''John Doe'', email = ''john@example.com''\<rparr>)
   \<and> fetchUserData 2 =
     Settled 100 (Inr \<lparr>id' = 2, name = ''Jane Smith'', email = ''jane@example.com''\<rparr>)
   \<and> (\<forall>userId. userId \<noteq> 1 \<and> userId \<noteq> 2 \<longrightarrow>
        fetchUserData userId = Settled 100 (Inl (Error ''User not found'')))"
  by (simp add: fetchUserData_def)

theorem fetchUserData_table_witness:
  "(999::int) \<noteq> 1 \<and> (999::int) \<noteq> 2
   \<and> fetchUserData 999 = Settled 100 (Inl (Error ''User not found''))
   \<and> fetchUserData 0 = Settled 100 (Inl (Error ''User not found''))"
  using fetchUserData_table by simp

section \<open>Properties of the aggregators\<close>

lemma processUserData_eval:
  "processUserData userId = Settled 100
     (if userId = 1 then Inr (processed_prefix @ ''John Doe (john@example.com)'')
      else if userId = 2 then Inr (processed_prefix @ ''Jane Smith (jane@example.com)'')
      else Inl (Error (failed_prefix @ ''User not found'')))"
  by (simp add: processUserData_def fetchUserData_def)

lemma processUsersParallel_item_eval:
  "processUsersParallel_item userId = Settled 100 (Inr (item_text userId))"
  by (simp add: processUsersParallel_item_def processUserData_eval item_text_def)

lemma processMultipleUsers_loop_eval:
  "processMultipleUsers_loop userIds results =
     Settled (100 * length userIds) (Inr (results @ map item_text userIds))"
proof (induction userIds arbitrary: results)
  case Nil
  show ?case by simp
next
  case (Cons userId rest)
  show ?case
    by (simp add: processUserData_eval Cons.IH delay_def item_text_def)
qed

lemma promise_all_items:
  "promise_all (map processUsersParallel_item userIds) =
     Settled (if userIds = [] then 0 else 100) (Inr (map item_text userIds))"
  by (induction userIds) (simp_all add: processUsersParallel_item_eval all_pair_def)

text \<open>
  C3. For every sequence of identifiers the sequential and the parallel aggregator are
  fulfilled with the same list. It is as long as the input, and the value at each position is
  the one that the item at that position of the input settles with.
\<close>

theorem aggregators_agree:
  "\<exists>d d' outputs.
     processMultipleUsers userIds = Settled d (Inr outputs)
     \<and> processUsersParallel userIds = Settled d' (Inr outputs)
     \<and> length outputs = length userIds
     \<and> map processUsersParallel_item userIds = map (\<lambda>text. Settled 100 (Inr text)) outputs"
proof -
  have "processMultipleUsers userIds =
          Settled (100 * length userIds) (Inr (map item_text userIds))"
    by (simp add: processMultipleUsers_def processMultipleUsers_loop_eval)
  moreover have "processUsersParallel userIds =
          Settled (if userIds = [] then 0 else 100) (Inr (map item_text userIds))"
    by (simp add: processUsersParallel_def promise_all_items)
  moreover have "map processUsersParallel_item userIds =
          map (\<lambda>text. Settled 100 (Inr text)) (map item_text userIds)"
    by (simp add: processUsersParallel_item_eval)
  ultimately show ?thesis
    by (metis length_map)
qed

text \<open>
  C10. \<^verbatim>\<open>processUserData\<close> is fulfilled with the formatted string of the record for the
  identifiers 1 and 2 and rejected with the wrapped message for every other identifier; at
  the position of such an identifier both aggregators hold that message behind
  \<^verbatim>\<open>Error: \<close>.
\<close>

theorem processUserData_strings:
  "processUserData 1 =
     Settled 100 (Inr (processed_prefix @ ''John Doe (john@example.com)''))
   \<and> processUserData 2 =
     Settled 100 (Inr (processed_prefix @ ''Jane Smith (jane@example.com)''))
   \<and> (\<forall>userId. userId \<noteq> 1 \<and> userId \<noteq> 2 \<longrightarrow>
        processUserData userId = Settled 100 (Inl (Error (failed_prefix @ ''User not found''))))
   \<and> (\<forall>userIds i. i < length userIds \<and> userIds ! i \<noteq> 1 \<and> userIds ! i \<noteq> 2 \<longrightarrow>
        (\<exists>d outputs. processMultipleUsers userIds = Settled d (Inr outputs)
           \<and> outputs ! i = ''Error: '' @ failed_prefix @ ''User not found'')
        \<and> (\<exists>d outputs. processUsersParallel userIds = Settled d (Inr outputs)
           \<and> outputs ! i = ''Error: '' @ failed_prefix @ ''User not found''))"
  by (simp add: processUserData_eval processMultipleUsers_def processMultipleUsers_loop_eval
      processUsersParallel_def promise_all_items item_text_def)

theorem processUserData_strings_witness:
  "(1::nat) < length [1, 999, 2 :: int] \<and> [1, 999, 2 :: int] ! 1 \<noteq> 1 \<and> [1, 999, 2 :: int] ! 1 \<noteq> 2
   \<and> processUserData 999 = Settled 100 (Inl (Error (failed_prefix @ ''User not found'')))
   \<and> (\<exists>d outputs. processMultipleUsers [1, 999, 2] = Settled d (Inr outputs)
           \<and> outputs ! 1 = ''Error: '' @ failed_prefix @ ''User not found'')
   \<and> (\<exists>d outputs. processUsersParallel [1, 999, 2] = Settled d (Inr outputs)
           \<and> outputs ! 1 = ''Error: '' @ failed_prefix @ ''User not found'')"
proof -
  have h: "(1::nat) < length [1, 999, 2 :: int] \<and> [1, 999, 2 :: int] ! 1 \<noteq> 1 \<and> [1, 999, 2 :: int] ! 1 \<noteq> 2"
    by simp
  have "(999::int) \<noteq> 1 \<and> (999::int) \<noteq> 2" by simp
  with h processUserData_strings show ?thesis by blast
qed

section \<open>Properties of the retry wrapper\<close>

lemma is_rejectedE:
  assumes "is_rejected p"
  obtains d e where "p = Settled d (Inl e)"
  using assms by (auto simp: is_rejected_def split: promise.splits sum.splits)

lemma operation_at:
  "operation (state_before operation s k) =
     (nth_call operation s k, state_before operation s (Suc k))"
  by (simp add: nth_call_def)

lemma retry_loop_rejected_step:
  assumes "nth_call operation s i = Settled d0 (Inl e0)" and "int i + 1 < maxRetries"
  shows "fetchWithRetry_loop operation maxRetries (int i + 1) lastError
           (call_instant operation s i) i (state_before operation s i) =
         fetchWithRetry_loop operation maxRetries (int (Suc i) + 1) (Some e0)
           (call_instant operation s (Suc i)) (Suc i) (state_before operation s (Suc i))"
proof -
  have op: "operation (state_before operation s i) =
      (Settled d0 (Inl e0), state_before operation s (Suc i))"
    using assms(1) operation_at [of operation s i] by simp
  have "fetchWithRetry_loop operation maxRetries (int i + 1) lastError
           (call_instant operation s i) i (state_before operation s i) =
        fetchWithRetry_loop operation maxRetries (int i + 1 + 1) (Some e0)
           (call_instant operation s i + d0 + 100 * 2 ^ nat (int i + 1 - 1)) (Suc i)
           (state_before operation s (Suc i))"
    using assms(2)
    by (subst fetchWithRetry_loop.simps) (simp only: op prod.case promise.case sum.case, simp)
  moreover have "call_instant operation s i + d0 + 100 * 2 ^ nat (int i + 1 - 1) =
      call_instant operation s (Suc i)"
    using assms(1) by (simp add: settles_after_def)
  moreover have "int i + 1 + 1 = int (Suc i) + 1" by simp
  ultimately show ?thesis by (simp only:)
qed

lemma retry_loop_fulfilled_step:
  assumes "nth_call operation s k = Settled d (Inr result)" and "int k < maxRetries"
  shows "fetchWithRetry_loop operation maxRetries (int k + 1) lastError now calls
           (state_before operation s k) =
         \<lparr>returned_retry = Settled (now + d) (Inr result), invocations = Suc calls,
          state_after = state_before operation s (Suc k)\<rparr>"
proof -
  have op: "operation (state_before operation s k) =
      (Settled d (Inr result), state_before operation s (Suc k))"
    using assms(1) operation_at [of operation s k] by simp
  show ?thesis
    using assms(2)
    by (subst fetchWithRetry_loop.simps) (simp only: op prod.case promise.case sum.case, simp)
qed

lemma retry_loop_last_step:
  assumes "nth_call operation s k = Settled d (Inl e)" and "int k + 1 = maxRetries"
  shows "fetchWithRetry_loop operation maxRetries (int k + 1) lastError now calls
           (state_before operation s k) =
         \<lparr>returned_retry = Settled (now + d) (Inl (Thrown (Error
            (retries_prefix @ string_of_int maxRetries @ retries_infix @ message e)))),
          invocations = Suc calls, state_after = state_before operation s (Suc k)\<rparr>"
proof -
  have op: "operation (state_before operation s k) =
      (Settled d (Inl e), state_before operation s (Suc k))"
    using assms(1) operation_at [of operation s k] by simp
  show ?thesis
    using assms(2)
    by (subst fetchWithRetry_loop.simps) (simp only: op prod.case promise.case sum.case, simp)
qed

lemma retry_loop_success:
  assumes "i \<le> k"
    and "\<forall>j<k. is_rejected (nth_call operation s j)"
    and "nth_call operation s k = Settled d (Inr result)"
    and "int k < maxRetries"
  shows "fetchWithRetry_loop operation maxRetries (int i + 1) lastError
           (call_instant operation s i) i (state_before operation s i) =
         \<lparr>returned_retry = Settled (call_instant operation s k + d) (Inr result),
          invocations = Suc k, state_after = state_before operation s (Suc k)\<rparr>"
  using assms(1)
proof (induction "k - i" arbitrary: i lastError)
  case 0
  then have "i = k" by simp
  with assms(3,4) show ?case
    by (simp add: retry_loop_fulfilled_step)
next
  case (Suc n)
  then have less: "i < k" by simp
  with assms(2) obtain d0 e0 where rej: "nth_call operation s i = Settled d0 (Inl e0)"
    by (meson is_rejectedE)
  have "int i + 1 < maxRetries" using less assms(4) by simp
  from retry_loop_rejected_step [OF rej this]
  have "fetchWithRetry_loop operation maxRetries (int i + 1) lastError
           (call_instant operation s i) i (state_before operation s i) =
        fetchWithRetry_loop operation maxRetries (int (Suc i) + 1) (Some e0)
           (call_instant operation s (Suc i)) (Suc i) (state_before operation s (Suc i))" .
  also have "\<dots> = \<lparr>returned_retry = Settled (call_instant operation s k + d) (Inr result),
          invocations = Suc k, state_after = state_before operation s (Suc k)\<rparr>"
    using Suc.hyps(1) [of "Suc i" "Some e0"] Suc.hyps(2) less by simp
  finally show ?case .
qed

lemma retry_loop_exhausted:
  assumes "i \<le> k"
    and "\<forall>j<k. is_rejected (nth_call operation s j)"
    and "nth_call operation s k = Settled d (Inl e)"
    and "int k + 1 = maxRetries"
  shows "fetchWithRetry_loop operation maxRetries (int i + 1) lastError
           (call_instant operation s i) i (state_before operation s i) =
         \<lparr>returned_retry = Settled (call_instant operation s k + d) (Inl (Thrown (Error
            (retries_prefix @ string_of_int maxRetries @ retries_infix @ message e)))),
          invocations = Suc k, state_after = state_before operation s (Suc k)\<rparr>"
  using assms(1)
proof (induction "k - i" arbitrary: i lastError)
  case 0
  then have "i = k" by simp
  with assms(3,4)
    retry_loop_last_step [of operation s k d e maxRetries lastError "call_instant operation s k" k]
  show ?case by simp
next
  case (Suc n)
  then have less: "i < k" by simp
  with assms(2) obtain d0 e0 where rej: "nth_call operation s i = Settled d0 (Inl e0)"
    by (meson is_rejectedE)
  have "int i + 1 < maxRetries" using less assms(4) by linarith
  from retry_loop_rejected_step [OF rej this]
  have "fetchWithRetry_loop operation maxRetries (int i + 1) lastError
           (call_instant operation s i) i (state_before operation s i) =
        fetchWithRetry_loop operation maxRetries (int (Suc i) + 1) (Some e0)
           (call_instant operation s (Suc i)) (Suc i) (state_before operation s (Suc i))" .
  also have "\<dots> = \<lparr>returned_retry = Settled (call_instant operation s k + d) (Inl (Thrown (Error
            (retries_prefix @ string_of_int maxRetries @ retries_infix @ message e)))),
          invocations = Suc k, state_after = state_before operation s (Suc k)\<rparr>"
    using Suc.hyps(1) [of "Suc i" "Some e0"] Suc.hyps(2) less by simp
  finally show ?case .
qed

text \<open>
  C1. With a maximum of at least one attempt: when the calls before call \<open>k\<close> are all
  rejected and call \<open>k\<close>, one of the first \<open>maxRetries\<close> calls, is fulfilled, the wrapper is
  fulfilled with that value at the instant at which that call settles, and the operation
  has been called \<open>k + 1\<close> times, no more; when the first \<open>maxRetries\<close> calls are all
  rejected, the operation has been called \<open>maxRetries\<close> times and the wrapper is rejected,
  when the last call settles, with an error whose message holds \<open>maxRetries\<close> and the
  message of the last rejection.
\<close>

theorem fetchWithRetry_contract:
  fixes operation :: "('s, 'a) operation"
  assumes "1 \<le> maxRetries"
  shows "(\<forall>k d result.
            int k < maxRetries
            \<and> (\<forall>j<k. is_rejected (nth_call operation s j))
            \<and> nth_call operation s k = Settled d (Inr result) \<longrightarrow>
            fetchWithRetry operation maxRetries s =
              \<lparr>returned_retry = Settled (call_instant operation s k + d) (Inr result),
               invocations = Suc k, state_after = state_before operation s (Suc k)\<rparr>)
       \<and> (\<forall>d e.
            (\<forall>j<nat maxRetries. is_rejected (nth_call operation s j))
            \<and> nth_call operation s (nat maxRetries - 1) = Settled d (Inl e) \<longrightarrow>
            fetchWithRetry operation maxRetries s =
              \<lparr>returned_retry =
                 Settled (call_instant operation s (nat maxRetries - 1) + d)
                   (Inl (Thrown (Error
                     (retries_prefix @ string_of_int maxRetries @ retries_infix @ message e)))),
               invocations = nat maxRetries,
               state_after = state_before operation s (nat maxRetries)\<rparr>)"
proof (intro conjI allI impI)
  fix k d and result :: 'a
  assume h: "int k < maxRetries
            \<and> (\<forall>j<k. is_rejected (nth_call operation s j))
            \<and> nth_call operation s k = Settled d (Inr result)"
  with retry_loop_success [of 0 k operation s d result maxRetries None]
  show "fetchWithRetry operation maxRetries s =
              \<lparr>returned_retry = Settled (call_instant operation s k + d) (Inr result),
               invocations = Suc k, state_after = state_before operation s (Suc k)\<rparr>"
    by (simp add: fetchWithRetry_def)
next
  fix d e
  assume h: "(\<forall>j<nat maxRetries. is_rejected (nth_call operation s j))
            \<and> nth_call operation s (nat maxRetries - 1) = Settled d (Inl e)"
  define k where "k = nat maxRetries - 1"
  have k: "nat maxRetries = Suc k" and "int k + 1 = maxRetries"
    using assms by (simp_all add: k_def)
  moreover have "\<forall>j<k. is_rejected (nth_call operation s j)" using h k by simp
  moreover have "nth_call operation s k = Settled d (Inl e)" using h by (simp add: k_def)
  ultimately show "fetchWithRetry operation maxRetries s =
              \<lparr>returned_retry =
                 Settled (call_instant operation s (nat maxRetries - 1) + d)
                   (Inl (Thrown (Error
                     (retries_prefix @ string_of_int maxRetries @ retries_infix @ message e)))),
               invocations = nat maxRetries,
               state_after = state_before operation s (nat maxRetries)\<rparr>"
    using retry_loop_exhausted [of 0 k operation s d e maxRetries None]
    by (simp add: fetchWithRetry_def)
qed

theorem fetchWithRetry_contract_witness:
  "(1::int) \<le> 3
   \<and> fetchWithRetry
        (\<lambda>n::nat. (if n = 0 then Settled 0 (Inl (Error ''first failure''))
                    else Settled 0 (Inr ''success''), Suc n)) 3 0 =
      \<lparr>returned_retry = Settled 100 (Inr ''success''), invocations = 2, state_after = 2\<rparr>
   \<and> (1::int) \<le> 2
   \<and> fetchWithRetry
        (\<lambda>n::nat. (Settled 0 (Inl (Error ''persistent failure'')) :: string js_promise, Suc n))
        2 0 =
      \<lparr>returned_retry = Settled 100 (Inl (Thrown (Error
         (retries_prefix @ ''2'' @ retries_infix @ ''persistent failure'')))),
       invocations = 2, state_after = 2\<rparr>"
proof -
  let ?retry = "\<lambda>n::nat. (if n = 0 then Settled 0 (Inl (Error ''first failure''))
                      else Settled 0 (Inr ''success'') :: string js_promise, Suc n)"
  let ?failing = "\<lambda>n::nat. (Settled 0 (Inl (Error ''persistent failure'')) :: string js_promise, Suc n)"
  have three: "(1::int) \<le> 3" and two: "(1::int) \<le> 2" by simp_all
  have a: "int (Suc 0) < 3
            \<and> (\<forall>j<Suc 0. is_rejected (nth_call ?retry 0 j))
            \<and> nth_call ?retry 0 (Suc 0) = Settled 0 (Inr ''success'')"
    by (simp add: nth_call_def is_rejected_def)
  have b: "(\<forall>j<nat 2. is_rejected (nth_call ?failing 0 j))
            \<and> nth_call ?failing 0 (nat 2 - 1) = Settled 0 (Inl (Error ''persistent failure''))"
    by (simp add: nth_call_def is_rejected_def)
  have s2: "string_of_int 2 = ''2''"
    by (simp add: string_of_int_def string_of_nat.simps digit_char_def)
  from fetchWithRetry_contract [OF three, of ?retry 0] a
  have "fetchWithRetry ?retry 3 0 =
        \<lparr>returned_retry = Settled (call_instant ?retry 0 (Suc 0) + 0) (Inr ''success''),
         invocations = Suc (Suc 0), state_after = state_before ?retry 0 (Suc (Suc 0))\<rparr>"
    by blast
  moreover from fetchWithRetry_contract [OF two, of ?failing 0] b
  have "fetchWithRetry ?failing 2 0 =
        \<lparr>returned_retry = Settled (call_instant ?failing 0 (nat 2 - 1) + 0) (Inl (Thrown (Error
           (retries_prefix @ string_of_int 2 @ retries_infix @ message (Error ''persistent failure''))))),
         invocations = nat 2, state_after = state_before ?failing 0 (nat 2)\<rparr>"
    by blast
  ultimately show ?thesis
    using three two
    by (simp add: s2 numeral_2_eq_2 nth_call_def settles_after_def)
qed

text \<open>
  C9. With a maximum of zero or less the loop body never runs: the operation is not called,
  and the wrapper is rejected at once with the unassigned \<^verbatim>\<open>lastError\<close>, that is with
  \<^verbatim>\<open>undefined\<close>, not with an error that reports the attempts.
\<close>

theorem fetchWithRetry_no_attempts:
  assumes "maxRetries \<le> 0"
  shows "fetchWithRetry operation maxRetries s =
           \<lparr>returned_retry = Settled 0 (Inl Thrown_undefined), invocations = 0, state_after = s\<rparr>"
  using assms by (simp add: fetchWithRetry_def fetchWithRetry_loop.simps [of operation maxRetries 1])

theorem fetchWithRetry_no_attempts_witness:
  "(0::int) \<le> 0
   \<and> fetchWithRetry
       (\<lambda>n::nat. (Settled 0 (Inr ''success'') :: string js_promise, Suc n)) 0 0 =
     \<lparr>returned_retry = Settled 0 (Inl Thrown_undefined), invocations = 0, state_after = 0\<rparr>"
proof -
  have h: "(0::int) \<le> 0" by simp
  from fetchWithRetry_no_attempts [OF h] show ?thesis by simp
qed

section \<open>Properties of the timeout wrapper\<close>

text \<open>
  C2. When the operation settles before the deadline, the wrapper settles as the operation
  did, at that instant, and the timer is cleared. When the deadline comes first, or the
  operation never settles, the wrapper is rejected at the deadline with the error
  "Operation timed out"; a settlement of the operation that arrives afterwards leaves
  the wrapper as it is.
\<close>

theorem fetchWithTimeout_contract:
  fixes operation :: "('s, 'a) operation"
  assumes "operation s = (p, s')"
  shows "(\<forall>d r. p = Settled d r \<and> d < timeout \<longrightarrow>
            fetchWithTimeout operation timeout s =
              (\<lparr>returned = Settled d r, timer = Cleared\<rparr>, s'))
       \<and> (p = Pending \<or> (\<exists>d r. p = Settled d r \<and> timeout < d) \<longrightarrow>
            fetchWithTimeout operation timeout s =
              (\<lparr>returned = Settled timeout (Inl (Error ''Operation timed out'')),
                timer = Fired\<rparr>, s'))
       \<and> (\<forall>d (r :: js_error + 'a). timeout_handler (d, Operation_settles r)
              \<lparr>returned = Settled timeout (Inl (Error ''Operation timed out'')), timer = Fired\<rparr> =
              \<lparr>returned = Settled timeout (Inl (Error ''Operation timed out'')), timer = Fired\<rparr>)"
proof (intro conjI allI impI)
  fix d r
  assume "p = Settled d r \<and> d < timeout"
  with assms show "fetchWithTimeout operation timeout s =
              (\<lparr>returned = Settled d r, timer = Cleared\<rparr>, s')"
    by (cases r)
       (simp_all add: fetchWithTimeout_def timeout_events_def clearTimeout_def resolve_def
          reject_def)
next
  assume "p = Pending \<or> (\<exists>d r. p = Settled d r \<and> timeout < d)"
  then show "fetchWithTimeout operation timeout s =
              (\<lparr>returned = Settled timeout (Inl (Error ''Operation timed out'')),
                timer = Fired\<rparr>, s')"
  proof
    assume "p = Pending"
    with assms show ?thesis
      by (simp add: fetchWithTimeout_def timeout_events_def reject_def)
  next
    assume "\<exists>d r. p = Settled d r \<and> timeout < d"
    then obtain d r where "p = Settled d r" "timeout < d" by blast
    with assms show ?thesis
      by (cases r)
         (simp_all add: fetchWithTimeout_def timeout_events_def clearTimeout_def resolve_def
            reject_def)
  qed
next
  fix d and r :: "js_error + 'a"
  show "timeout_handler (d, Operation_settles r)
              \<lparr>returned = Settled timeout (Inl (Error ''Operation timed out'')), timer = Fired\<rparr> =
              \<lparr>returned = Settled timeout (Inl (Error ''Operation timed out'')), timer = Fired\<rparr>"
    by (cases r) (simp_all add: clearTimeout_def resolve_def reject_def)
qed

theorem fetchWithTimeout_contract_witness:
  "fetchWithTimeout (\<lambda>s::unit. (fetchUserData 1, s)) 200 () =
     (\<lparr>returned = Settled 100
          (Inr \<lparr>id' = 1, name = ''John Doe'', email = ''john@example.com''\<rparr>),
       timer = Cleared\<rparr>, ())
   \<and> fetchWithTimeout (\<lambda>s::unit. (Settled 200 (Inr ''slow result''), s)) 50 () =
     (\<lparr>returned = Settled 50 (Inl (Error ''Operation timed out'')), timer = Fired\<rparr>, ())
   \<and> fetchWithTimeout (\<lambda>s::unit. (Pending :: string js_promise, s)) 50 () =
     (\<lparr>returned = Settled 50 (Inl (Error ''Operation timed out'')), timer = Fired\<rparr>, ())"
proof -
  let ?fast = "\<lambda>s::unit. (fetchUserData 1, s)"
  let ?slow = "\<lambda>s::unit. (Settled 200 (Inr ''slow result'') :: string js_promise, s)"
  let ?never = "\<lambda>s::unit. (Pending :: string js_promise, s)"
  have "fetchWithTimeout ?fast 200 () =
     (\<lparr>returned = Settled 100
          (Inr \<lparr>id' = 1, name = ''John Doe'', email = ''john@example.com''\<rparr>),
       timer = Cleared\<rparr>, ())"
    using fetchWithTimeout_contract [of ?fast "()" "fetchUserData 1" "()" 200]
    by (simp add: fetchUserData_def)
  moreover have "fetchWithTimeout ?slow 50 () =
     (\<lparr>returned = Settled 50 (Inl (Error ''Operation timed out'')), timer = Fired\<rparr>, ())"
    using fetchWithTimeout_contract [of ?slow "()" "Settled 200 (Inr ''slow result'')" "()" 50]
    by simp
  moreover have "fetchWithTimeout ?never 50 () =
     (\<lparr>returned = Settled 50 (Inl (Error ''Operation timed out'')), timer = Fired\<rparr>, ())"
    using fetchWithTimeout_contract [of ?never "()" Pending "()" 50]
    by simp
  ultimately show ?thesis by simp
qed

section \<open>Properties of the race composer\<close>

text \<open>
  C8. The race settles as the operation that settles first: as the first operation when
  it settles strictly before the second or the second never settles, as the second one in
  the mirrored case, be the winning settlement a value or an error. The settlement of the
  other operation is handled later and changes nothing.
\<close>

theorem raceConditionTest_first_settlement:
  fixes operation1 operation2 :: "('s, string) operation"
  assumes "operation1 s = (p1, s1)" and "operation2 s1 = (p2, s2)"
  shows "(\<forall>d1 r1. p1 = Settled d1 r1
            \<and> (p2 = Pending \<or> (\<exists>d2 r2. p2 = Settled d2 r2 \<and> d1 < d2)) \<longrightarrow>
            raceConditionTest operation1 operation2 s = (Settled d1 r1, s2))
       \<and> (\<forall>d2 r2. p2 = Settled d2 r2
            \<and> (p1 = Pending \<or> (\<exists>d1 r1. p1 = Settled d1 r1 \<and> d2 < d1)) \<longrightarrow>
            raceConditionTest operation1 operation2 s = (Settled d2 r2, s2))"
  using assms
  by (auto simp: raceConditionTest_def promise_race_def settlements_def settle_def resolve_def
      reject_def split: sum.splits)

theorem raceConditionTest_first_settlement_witness:
  "raceConditionTest
     (\<lambda>s::unit. (Settled 50 (Inr ''fast result''), s))
     (\<lambda>s. (Settled 200 (Inr ''slow result''), s)) () = (Settled 50 (Inr ''fast result''), ())
   \<and> raceConditionTest
     (\<lambda>s::unit. (Settled 200 (Inr ''slow result''), s))
     (\<lambda>s. (Settled 50 (Inl (Error ''error occurred'')), s)) () =
       (Settled 50 (Inl (Error ''error occurred'')), ())"
proof -
  let ?fast = "\<lambda>s::unit. (Settled 50 (Inr ''fast result'') :: string js_promise, s)"
  let ?slow = "\<lambda>s::unit. (Settled 200 (Inr ''slow result'') :: string js_promise, s)"
  let ?failing = "\<lambda>s::unit. (Settled 50 (Inl (Error ''error occurred'')) :: string js_promise, s)"
  have "raceConditionTest ?fast ?slow () = (Settled 50 (Inr ''fast result''), ())"
    using raceConditionTest_first_settlement
      [of ?fast "()" "Settled 50 (Inr ''fast result'')" "()" ?slow
          "Settled 200 (Inr ''slow result'')" "()"]
    by simp
  moreover have "raceConditionTest ?slow ?failing () =
      (Settled 50 (Inl (Error ''error occurred'')), ())"
    using raceConditionTest_first_settlement
      [of ?slow "()" "Settled 200 (Inr ''slow result'')" "()" ?failing
          "Settled 50 (Inl (Error ''error occurred''))" "()"]
    by simp
  ultimately show ?thesis by simp
qed

section \<open>Properties of the callback bridge\<close>

text \<open>
  C7. For every identifier the continuation is called once, with an error or with a record
  and never with both or neither; \<^verbatim>\<open>promisifyCallback\<close> is fulfilled with that very record
  or rejected with that very error.
\<close>

theorem callback_bridge:
  "\<exists>error user.
     (\<forall>callback. fetchUserCallback userId callback = (50, callback error user))
     \<and> (error = None) \<noteq> (user = None)
     \<and> promisifyCallback userId =
         Settled 50 (case error of Some e \<Rightarrow> Inl e | None \<Rightarrow> Inr user)"
proof -
  consider "userId = 1" | "userId = 2" | "userId \<noteq> 1 \<and> userId \<noteq> 2"
    by blast
  then show ?thesis
  proof cases
    case 1
    then show ?thesis
      by (intro exI [of _ None]
            exI [of _ "Some \<lparr>id' = 1, name = ''John Doe'', email = ''john@example.com''\<rparr>"])
         (simp add: fetchUserCallback_def promisifyCallback_def resolve_def)
  next
    case 2
    then show ?thesis
      by (intro exI [of _ None]
            exI [of _ "Some \<lparr>id' = 2, name = ''Jane Smith'', email = ''jane@example.com''\<rparr>"])
         (simp add: fetchUserCallback_def promisifyCallback_def resolve_def)
  next
    case 3
    then show ?thesis
      by (intro exI [of _ "Some (Error ''User not found'')"] exI [of _ None])
         (simp add: fetchUserCallback_def promisifyCallback_def reject_def)
  qed
qed

section \<open>Properties of the streaming producer\<close>

text \<open>
  C6. Over the identifiers 1, 999, 2 the consumer receives the records of 1 and 2, in this
  order, and the loop ends normally; there is one line on the error console, for 999. The
  call of \<^verbatim>\<open>next\<close> that meets 999 reports it and goes on to yield the record of 2.
\<close>

theorem generateUserStream_skips_failure:
  "for_await_push [1, 999, 2] \<lparr>clock = 0, console_log = [], console_error = []\<rparr> [] =
     Some (Inr [\<lparr>id' = 1, name = ''John Doe'', email = ''john@example.com''\<rparr>,
                \<lparr>id' = 2, name = ''Jane Smith'', email = ''jane@example.com''\<rparr>],
           \<lparr>clock = 300, console_log = [],
            console_error = [(200, ''Failed to fetch user 999:'', Error ''User not found'')]\<rparr>)
   \<and> generateUserStream_next [999, 2] \<lparr>clock = 100, console_log = [], console_error = []\<rparr> =
     Some (Inr (Yield \<lparr>id' = 2, name = ''Jane Smith'', email = ''jane@example.com''\<rparr>), [],
           \<lparr>clock = 300, console_log = [],
            console_error = [(200, ''Failed to fetch user 999:'', Error ''User not found'')]\<rparr>)"
  by (simp add: for_await_push.simps fetchUserData_def sleep_def print_error_def
      string_of_int_def string_of_nat.simps digit_char_def)

section \<open>Properties of the resource-scoped operation\<close>

text \<open>
  C5. Whatever the flag, the call adds one line to the log, the cleanup line with the
  resource, written at the instant at which the call settles, and nothing to the error
  console. With the flag set the caller gets the error of the main step; without it, the
  result string.
\<close>

theorem complexAsyncOperation_cleanup:
  "console_log (snd (complexAsyncOperation shouldFail w)) =
     console_log w @
       [(clock (snd (complexAsyncOperation shouldFail w)), cleanup_prefix @ ''allocated resource'')]
   \<and> console_error (snd (complexAsyncOperation shouldFail w)) = console_error w
   \<and> fst (complexAsyncOperation True w) = Inl (Error task_failed)
   \<and> fst (complexAsyncOperation False w) = Inr (task_done_prefix @ ''allocated resource'')"
  by (simp add: complexAsyncOperation_def sleep_def print_log_def truthy_def template_def
      Let_def)

end
